theory Spec2Isabelle
  imports Main "HOL-Library.Word"
begin

section \<open>telephish: data model\<close>

text \<open>
  The three structs of \<^verbatim>\<open>telephish.go\<close>. An \<^verbatim>\<open>int64\<close> is a 64-bit word; Go's
  \<^verbatim>\<open>int\<close> is 64 bits wide on the platforms the program targets. A pointer that may be
  nil is an option, and so is the one slice the code compares with nil
  (\<^verbatim>\<open>Entities\<close>): \<open>None\<close> is the nil slice, \<open>Some []\<close> an empty one.
\<close>

record Entity =
  Type :: string
  Offset :: "64 word"
  Length :: "64 word"
  URL :: string

record TelegramMsg =
  MessageID :: "64 word"
  Text :: string
  Entities :: "Entity list option"

record Update =
  UpdateID :: "64 word"
  Message :: "TelegramMsg option"

text \<open>The anonymous struct that \<^verbatim>\<open>GetUpdates\<close> decodes the response body into.\<close>

record envelope =
  Ok :: bool
  Result :: "Update list"

section \<open>Errors and panics\<close>

text \<open>
  A Go \<^verbatim>\<open>error\<close> value is modelled by the call that created it together with its
  message: Go tells such values apart by dynamic type and identity. \<open>UrlError\<close> is what
  \<^verbatim>\<open>http.Get\<close> returns, \<open>JSONError\<close> what \<^verbatim>\<open>Decode\<close> returns, \<open>OleError\<close> what the
  go-ole calls return and \<open>ErrorString\<close> what \<^verbatim>\<open>fmt.Errorf\<close> creates.
\<close>

datatype error =
    UrlError string
  | JSONError string
  | OleError string
  | ErrorString string

fun Error :: "error \<Rightarrow> string" where
  "Error (UrlError s) = s"
| "Error (JSONError s) = s"
| "Error (OleError s) = s"
| "Error (ErrorString s) = s"

datatype panic = NilPointerDereference | IndexOutOfRange

section \<open>Formatting\<close>

text \<open>
  \<^verbatim>\<open>fmt.Sprintf\<close> on string operands, for the format strings this program has: their
  only verbs are \<^verbatim>\<open>%s\<close> and \<^verbatim>\<open>%v\<close>, without flags, and every call passes as many
  operands as its format has verbs (an error operand \<^verbatim>\<open>err\<close> is passed as \<open>Error err\<close>,
  which is what \<^verbatim>\<open>%v\<close> prints). Such a verb writes the next operand unchanged, and the
  operand is never scanned for verbs. Beyond that, \<^verbatim>\<open>%%\<close> writes a percent sign, a verb
  without an operand writes \<^verbatim>\<open>%!s(MISSING)\<close> and a percent sign at the very end writes
  \<^verbatim>\<open>%!(NOVERB)\<close>, as in Go; other verbs, flags and surplus operands are not modelled.
\<close>

fun Sprintf :: "string \<Rightarrow> string list \<Rightarrow> string" where
  "Sprintf [] args = []"
| "Sprintf [c] args = (if c = CHR ''%'' then ''%!(NOVERB)'' else [c])"
| "Sprintf (c # d # f) args =
     (if c = CHR ''%'' \<and> (d = CHR ''s'' \<or> d = CHR ''v'') then
        (case args of
           [] \<Rightarrow> ''%!'' @ [d] @ ''(MISSING)'' @ Sprintf f []
         | a # as \<Rightarrow> a @ Sprintf f as)
      else if c = CHR ''%'' \<and> d = CHR ''%'' then CHR ''%'' # Sprintf f args
      else c # Sprintf (d # f) args)"

definition Errorf :: "string \<Rightarrow> string list \<Rightarrow> error" where
  "Errorf format args = ErrorString (Sprintf format args)"

section \<open>GetUpdates\<close>

text \<open>
  The HTTP transport and the JSON decoder are library code, so they are parameters:
  \<open>http_Get url\<close> is the message of the transport error or the response body, and
  \<open>Decode body\<close> is the message of the decoding error or the decoded envelope.
  On every error the Go function returns a nil slice beside the error, which is \<open>Inl\<close> here.
  A slice that is only measured and indexed is a list, the nil slice being the empty list.
  The deferred \<^verbatim>\<open>resp.Body.Close()\<close> has no effect on the result and is left out.
\<close>

definition getUpdatesURL :: "string \<Rightarrow> string" where
  "getUpdatesURL token = Sprintf ''https://api.telegram.org/bot%s/getUpdates'' [token]"

definition GetUpdates ::
  "(string \<Rightarrow> string + string) \<Rightarrow> (string \<Rightarrow> string + envelope) \<Rightarrow> string
   \<Rightarrow> error + Update list" where
  "GetUpdates http_Get Decode token =
     (case http_Get (getUpdatesURL token) of
        Inl err \<Rightarrow> Inl (UrlError err)
      | Inr body \<Rightarrow>
          (case Decode body of
             Inl err \<Rightarrow> Inl (JSONError err)
           | Inr updates \<Rightarrow>
               if \<not> Ok updates then Inl (Errorf ''failed to get updates'' [])
               else Inr (Result updates)))"

text \<open>
  The error of line 53, which the specification calls the APIError; the errors of the
  decoder are the ones it calls DecodeError.
\<close>

definition APIError :: error where
  "APIError = ErrorString ''failed to get updates''"


section \<open>ExtractURL\<close>

text \<open>
  The \<^verbatim>\<open>range\<close> loop of \<^verbatim>\<open>ExtractURL\<close>: \<open>Some u\<close> when the loop body returns \<open>u\<close>,
  \<open>None\<close> when the loop runs to its end.
\<close>

fun range_Entities :: "Entity list \<Rightarrow> string option" where
  "range_Entities [] = None"
| "range_Entities (entity # rest) =
     (if Type entity = ''url'' then Some (URL entity) else range_Entities rest)"

text \<open>
  \<^verbatim>\<open>ExtractURL\<close> takes a pointer and reads \<^verbatim>\<open>message.Entities\<close> at once, so a nil
  pointer panics.
\<close>

definition ExtractURL :: "TelegramMsg option \<Rightarrow> panic + string" where
  "ExtractURL message =
     (case message of
        None \<Rightarrow> Inl NilPointerDereference
      | Some m \<Rightarrow>
          (case Entities m of
             None \<Rightarrow> Inr ''''
           | Some es \<Rightarrow>
               (case range_Entities es of
                  Some u \<Rightarrow> Inr u
                | None \<Rightarrow> Inr '''')))"

section \<open>ShowNotification\<close>

text \<open>
  The go-ole layer is a parameter: for each of the seven platform calls, \<open>None\<close> says it
  returns a nil error and \<open>Some msg\<close> that it fails with that message. The two calls that
  receive the toast document may depend on it.
\<close>

record platform =
  CoInitialize :: "string option"
  CreateObject :: "string option"
  QueryInterface :: "string option"
  GetProperty :: "string option"
  GetTemplateContent :: "string option"
  PutProperty :: "string \<Rightarrow> string option"
  CallMethod_Show :: "string \<Rightarrow> string option"

text \<open>
  The five resources the function acquires, and what the platform observes: a successful
  acquisition, a release (\<^verbatim>\<open>CoUninitialize\<close>, \<^verbatim>\<open>Release\<close>, \<^verbatim>\<open>Clear\<close>), the call that
  sets \<^verbatim>\<open>InnerXml\<close> and the call of \<^verbatim>\<open>Show\<close>, each with the document involved.
\<close>

datatype resource = OLE | Manager | ManagerDispatch | Notifier | Content

datatype event =
    Acquire resource
  | Release resource
  | PutInnerXml string
  | ShowToast string

text \<open>
  The state of one call: the events so far, oldest first, and the stack of deferred
  calls, the most recently deferred at the head.
\<close>

record frame =
  trace :: "event list"
  deferred :: "event list"

definition emit :: "event \<Rightarrow> frame \<Rightarrow> frame" where
  "emit e s = s\<lparr>trace := trace s @ [e]\<rparr>"

definition defer_call :: "event \<Rightarrow> frame \<Rightarrow> frame" where
  "defer_call e s = s\<lparr>deferred := e # deferred s\<rparr>"

text \<open>Returning runs the deferred calls, last deferred first.\<close>

definition return_from :: "'r \<times> frame \<Rightarrow> 'r \<times> event list" where
  "return_from rs = (fst rs, trace (snd rs) @ deferred (snd rs))"

definition toastTemplate :: string where
  "toastTemplate =
     ''\<newline>'' @
     ''    <toast>\<newline>'' @
     ''        <visual>\<newline>'' @
     ''            <binding template='ToastGeneric'>\<newline>'' @
     ''                <text>%s</text>\<newline>'' @
     ''                <text>%s</text>\<newline>'' @
     ''            </binding>\<newline>'' @
     ''        </visual>\<newline>'' @
     ''        <actions>\<newline>'' @
     ''            <action content='Open browser' arguments='%s' activationType='foreground'/>\<newline>'' @
     ''        </actions>\<newline>'' @
     ''    </toast>''"

definition toastXML :: "string \<Rightarrow> string \<Rightarrow> string \<Rightarrow> string" where
  "toastXML title message url = Sprintf toastTemplate [title, message, url]"

definition ShowNotification_body ::
  "platform \<Rightarrow> string \<Rightarrow> string \<Rightarrow> string \<Rightarrow> error option \<times> frame" where
  "ShowNotification_body p title message url =
     (let s0 = \<lparr>trace = [], deferred = []\<rparr> in
      case CoInitialize p of
        Some err \<Rightarrow> (Some (Errorf ''failed to initialize OLE: %v'' [Error (OleError err)]), s0)
      | None \<Rightarrow>
     (let s1 = defer_call (Release OLE) (emit (Acquire OLE) s0) in
      case CreateObject p of
        Some err \<Rightarrow>
          (Some (Errorf ''failed to create ToastNotificationManager: %v'' [Error (OleError err)]),
           s1)
      | None \<Rightarrow>
     (let s2 = defer_call (Release Manager) (emit (Acquire Manager) s1) in
      case QueryInterface p of
        Some err \<Rightarrow> (Some (Errorf ''failed to query IDispatch: %v'' [Error (OleError err)]), s2)
      | None \<Rightarrow>
     (let s3 = defer_call (Release ManagerDispatch) (emit (Acquire ManagerDispatch) s2) in
      case GetProperty p of
        Some err \<Rightarrow> (Some (Errorf ''failed to get ToastNotifier: %v'' [Error (OleError err)]), s3)
      | None \<Rightarrow>
     (let s4 = defer_call (Release Notifier) (emit (Acquire Notifier) s3);
          toast = toastXML title message url in
      case GetTemplateContent p of
        Some err \<Rightarrow>
          (Some (Errorf ''failed to get template content: %v'' [Error (OleError err)]), s4)
      | None \<Rightarrow>
     (let s5 = defer_call (Release Content) (emit (Acquire Content) s4);
          s6 = emit (PutInnerXml toast) s5 in
      case PutProperty p toast of
        Some err \<Rightarrow> (Some (Errorf ''failed to set inner XML: %v'' [Error (OleError err)]), s6)
      | None \<Rightarrow>
     (let s7 = emit (ShowToast toast) s6 in
      case CallMethod_Show p toast of
        Some err \<Rightarrow>
          (Some (Errorf ''failed to show notification: %v'' [Error (OleError err)]), s7)
      | None \<Rightarrow> (None, s7))))))))"

definition ShowNotification ::
  "platform \<Rightarrow> string \<Rightarrow> string \<Rightarrow> string \<Rightarrow> error option \<times> event list" where
  "ShowNotification p title message url =
     return_from (ShowNotification_body p title message url)"

section \<open>main\<close>

text \<open>
  The environment is a map from names to values; \<^verbatim>\<open>os.Getenv\<close> gives the empty string
  for an unset name. Indexing a slice out of range panics, and so does reading a field
  through a nil pointer.
\<close>

definition Getenv :: "(string \<rightharpoonup> string) \<Rightarrow> string \<Rightarrow> string" where
  "Getenv env k = (case env k of None \<Rightarrow> '''' | Some v \<Rightarrow> v)"

definition index :: "'a list \<Rightarrow> int \<Rightarrow> panic + 'a" where
  "index xs i = (if 0 \<le> i \<and> i < int (length xs) then Inr (xs ! nat i) else Inl IndexOutOfRange)"

definition deref :: "'a option \<Rightarrow> panic + 'a" where
  "deref p = (case p of None \<Rightarrow> Inl NilPointerDereference | Some v \<Rightarrow> Inr v)"

text \<open>
  What a run of the program leaves behind: how the process ends (\<^verbatim>\<open>log.Fatalf\<close> exits
  with status 1, returning from \<^verbatim>\<open>main\<close> with status 0), the lines it logged, the
  calls of \<^verbatim>\<open>ShowNotification\<close> with their arguments, and the platform events.
\<close>

datatype exit = Exit nat | Panicked panic

record outcome =
  status :: exit
  logged :: "string list"
  notifications :: "(string \<times> string \<times> string) list"
  events :: "event list"

definition finish :: "exit \<Rightarrow> string list \<Rightarrow> outcome" where
  "finish st ls = \<lparr>status = st, logged = ls, notifications = [], events = []\<rparr>"

definition main ::
  "(string \<rightharpoonup> string) \<Rightarrow> (string \<Rightarrow> string + string) \<Rightarrow> (string \<Rightarrow> string + envelope)
   \<Rightarrow> platform \<Rightarrow> outcome" where
  "main env http_Get Decode p =
     (let token = Getenv env ''TELEGRAM_BOT_TOKEN'' in
      case GetUpdates http_Get Decode token of
        Inl err \<Rightarrow> finish (Exit 1) [Sprintf ''Error fetching updates: %v\<newline>'' [Error err]]
      | Inr updates \<Rightarrow>
          if length updates = 0 then finish (Exit 0) [''No new messages.'']
          else
            (case index updates (int (length updates) - 1) of
               Inl pn \<Rightarrow> finish (Panicked pn) []
             | Inr lastUpdate \<Rightarrow>
                 if Message lastUpdate \<noteq> None then
                   (let message = Message lastUpdate in
                    case ExtractURL message of
                      Inl pn \<Rightarrow> finish (Panicked pn) []
                    | Inr url \<Rightarrow>
                        if url \<noteq> '''' then
                          (let title = ''New Message'' in
                           case deref message of
                             Inl pn \<Rightarrow> finish (Panicked pn) []
                           | Inr m \<Rightarrow>
                               (let content = Sprintf ''You received a new message: %s'' [Text m];
                                    shown = ShowNotification p title content url in
                                case fst shown of
                                  Some err \<Rightarrow>
                                    \<lparr>status = Exit 1,
                                     logged = [Sprintf ''Error showing notification: %v'' [Error err]],
                                     notifications = [(title, content, url)],
                                     events = snd shown\<rparr>
                                | None \<Rightarrow>
                                    \<lparr>status = Exit 0,
                                     logged = [],
                                     notifications = [(title, content, url)],
                                     events = snd shown\<rparr>))
                        else finish (Exit 0) [''No URL found in the last message.''])
                 else finish (Exit 0) [''No message in the last update.'']))"

section \<open>Properties of traces, and example data\<close>

text \<open>
  Replays a trace against the list of resources currently held: acquiring a resource
  that is held, or releasing one that is not, gives \<open>None\<close>.
\<close>

fun held_after :: "event list \<Rightarrow> resource list \<Rightarrow> resource list option" where
  "held_after [] held = Some held"
| "held_after (Acquire r # tr) held =
     (if r \<in> set held then None else held_after tr (r # held))"
| "held_after (Release r # tr) held =
     (if r \<in> set held then held_after tr (removeAll r held) else None)"
| "held_after (PutInnerXml x # tr) held = held_after tr held"
| "held_after (ShowToast x # tr) held = held_after tr held"

text \<open>
  Example surroundings for concrete runs: an environment holding a token, a transport
  that serves one body at the URL of that token, a decoder that knows that one body, and
  a platform on which every call succeeds.
\<close>

definition env0 :: "string \<rightharpoonup> string" where
  "env0 = [''TELEGRAM_BOT_TOKEN'' \<mapsto> ''t0k'']"

definition transport0 :: "string \<Rightarrow> string + string" where
  "transport0 url =
     (if url = ''https://api.telegram.org/bott0k/getUpdates'' then Inr ''body0''
      else Inl ''no such host'')"

definition decoder0 :: "envelope \<Rightarrow> string \<Rightarrow> string + envelope" where
  "decoder0 e body = (if body = ''body0'' then Inr e else Inl ''unexpected end of JSON input'')"

definition platform0 :: platform where
  "platform0 =
     \<lparr>CoInitialize = None, CreateObject = None, QueryInterface = None, GetProperty = None,
      GetTemplateContent = None, PutProperty = (\<lambda>x. None), CallMethod_Show = (\<lambda>x. None)\<rparr>"

definition entity0 :: "string \<Rightarrow> string \<Rightarrow> Entity" where
  "entity0 k u = \<lparr>Type = k, Offset = 0, Length = 0, URL = u\<rparr>"

definition message0 :: "string \<Rightarrow> Entity list \<Rightarrow> TelegramMsg" where
  "message0 t es = \<lparr>MessageID = 1, Text = t, Entities = Some es\<rparr>"

definition update0 :: "64 word \<Rightarrow> TelegramMsg option \<Rightarrow> Update" where
  "update0 i m = \<lparr>UpdateID = i, Message = m\<rparr>"



section \<open>Auxiliary facts\<close>

lemma range_Entities_none:
  "\<forall>x\<in>set es. Type x \<noteq> ''url'' \<Longrightarrow> range_Entities es = None"
  by (induction es) auto

lemma range_Entities_first:
  "\<forall>x\<in>set pre. Type x \<noteq> ''url'' \<Longrightarrow> Type e = ''url''
   \<Longrightarrow> range_Entities (pre @ e # post) = Some (URL e)"
  by (induction pre) auto

lemma index_last: "xs \<noteq> [] \<Longrightarrow> index xs (int (length xs) - 1) = Inr (last xs)"
  by (cases xs rule: rev_cases) (simp_all add: index_def nat_diff_distrib' nth_append)

lemma Sprintf_content:
  "Sprintf ''You received a new message: %s'' [t] = ''You received a new message: '' @ t"
  by simp

lemma getUpdatesURL_eq: "getUpdatesURL token = ''https://api.telegram.org/bot'' @ token @ ''/getUpdates''"
  by (simp add: getUpdatesURL_def)

lemma GetUpdates0: "GetUpdates transport0 (decoder0 e) (Getenv env0 ''TELEGRAM_BOT_TOKEN'') =
    (if Ok e then Inr (Result e) else Inl (ErrorString ''failed to get updates''))"
  by (simp add: GetUpdates_def getUpdatesURL_eq Getenv_def env0_def transport0_def decoder0_def
      Errorf_def)

lemma main_no_updates:
  "GetUpdates http_Get Decode (Getenv env ''TELEGRAM_BOT_TOKEN'') = Inr []
   \<Longrightarrow> main env http_Get Decode p = finish (Exit 0) [''No new messages.'']"
  by (simp add: main_def)

lemma main_no_message:
  "GetUpdates http_Get Decode (Getenv env ''TELEGRAM_BOT_TOKEN'') = Inr updates
   \<Longrightarrow> updates \<noteq> [] \<Longrightarrow> Message (last updates) = None
   \<Longrightarrow> main env http_Get Decode p = finish (Exit 0) [''No message in the last update.'']"
  by (simp add: main_def index_last)

lemma main_no_url:
  "GetUpdates http_Get Decode (Getenv env ''TELEGRAM_BOT_TOKEN'') = Inr updates
   \<Longrightarrow> updates \<noteq> [] \<Longrightarrow> Message (last updates) = Some m \<Longrightarrow> ExtractURL (Some m) = Inr ''''
   \<Longrightarrow> main env http_Get Decode p = finish (Exit 0) [''No URL found in the last message.'']"
  by (simp add: main_def index_last)

lemma main_shows:
  "GetUpdates http_Get Decode (Getenv env ''TELEGRAM_BOT_TOKEN'') = Inr updates
   \<Longrightarrow> updates \<noteq> [] \<Longrightarrow> Message (last updates) = Some m \<Longrightarrow> ExtractURL (Some m) = Inr u
   \<Longrightarrow> u \<noteq> ''''
   \<Longrightarrow> main env http_Get Decode p =
         \<lparr>status =
            (case fst (ShowNotification p ''New Message''
                         (''You received a new message: '' @ Text m) u) of
               None \<Rightarrow> Exit 0 | Some err \<Rightarrow> Exit 1),
          logged =
            (case fst (ShowNotification p ''New Message''
                         (''You received a new message: '' @ Text m) u) of
               None \<Rightarrow> []
             | Some err \<Rightarrow> [Sprintf ''Error showing notification: %v'' [Error err]]),
          notifications = [(''New Message'', ''You received a new message: '' @ Text m, u)],
          events = snd (ShowNotification p ''New Message''
                          (''You received a new message: '' @ Text m) u)\<rparr>"
  by (simp add: main_def Let_def index_last deref_def Sprintf_content
      del: Sprintf.simps split: option.splits)

lemma ShowNotification_initialized_once:
  "CoInitialize p = None
   \<Longrightarrow> count_list (snd (ShowNotification p title message url)) (Acquire OLE) = 1"
  by (simp add: ShowNotification_def ShowNotification_body_def return_from_def emit_def
      defer_call_def Let_def split: option.splits)

lemmas ShowNotification_defs =
  ShowNotification_def ShowNotification_body_def return_from_def emit_def defer_call_def Let_def



section \<open>Claims\<close>

text \<open>
  C1. Whenever the fetched update list is non-empty, its last element (by position) has
  a message \<open>m\<close> and \<open>ExtractURL\<close> gives a non-empty URL \<open>u\<close> for it, \<open>main\<close> calls
  \<open>ShowNotification\<close> exactly once, with the title "New Message", the body
  "You received a new message: " followed by the text of \<open>m\<close>, and the URL \<open>u\<close>:
  the recorded calls are that one call, the platform events of the run are exactly the
  events of that one call (so the platform is initialised once when it can be), and the
  exit status is 0 when the call succeeds and 1 when it fails.
\<close>

theorem main_notifies_last:
  assumes "GetUpdates http_Get Decode (Getenv env ''TELEGRAM_BOT_TOKEN'') = Inr updates"
    and "updates \<noteq> []"
    and "Message (last updates) = Some m"
    and "ExtractURL (Some m) = Inr u"
    and "u \<noteq> ''''"
  shows "notifications (main env http_Get Decode p) =
           [(''New Message'', ''You received a new message: '' @ Text m, u)] \<and>
         events (main env http_Get Decode p) =
           snd (ShowNotification p ''New Message''
                  (''You received a new message: '' @ Text m) u) \<and>
         status (main env http_Get Decode p) =
           (case fst (ShowNotification p ''New Message''
                        (''You received a new message: '' @ Text m) u) of
              None \<Rightarrow> Exit 0 | Some err \<Rightarrow> Exit 1) \<and>
         (CoInitialize p = None \<longrightarrow>
            count_list (events (main env http_Get Decode p)) (Acquire OLE) = 1)"
  by (simp add: main_shows [OF assms] ShowNotification_initialized_once)

text \<open>
  The example of the specification, behind an older update with a larger identifier:
  the last position decides, not the identifier.
\<close>

theorem main_notifies_last_witness:
  "notifications
     (main env0 transport0
        (decoder0 \<lparr>Ok = True, Result =
           [update0 9 (Some (message0 ''old'' [entity0 ''url'' ''http://old.test''])),
            update0 4 (Some (message0 ''hello'' [entity0 ''url'' ''http://x.test'']))]\<rparr>)
        platform0) =
   [(''New Message'', ''You received a new message: hello'', ''http://x.test'')] \<and>
   events
     (main env0 transport0
        (decoder0 \<lparr>Ok = True, Result =
           [update0 9 (Some (message0 ''old'' [entity0 ''url'' ''http://old.test''])),
            update0 4 (Some (message0 ''hello'' [entity0 ''url'' ''http://x.test'']))]\<rparr>)
        platform0) =
   [Acquire OLE, Acquire Manager, Acquire ManagerDispatch, Acquire Notifier, Acquire Content,
    PutInnerXml (toastXML ''New Message'' ''You received a new message: hello'' ''http://x.test''),
    ShowToast (toastXML ''New Message'' ''You received a new message: hello'' ''http://x.test''),
    Release Content, Release Notifier, Release ManagerDispatch, Release Manager, Release OLE] \<and>
   status
     (main env0 transport0
        (decoder0 \<lparr>Ok = True, Result =
           [update0 9 (Some (message0 ''old'' [entity0 ''url'' ''http://old.test''])),
            update0 4 (Some (message0 ''hello'' [entity0 ''url'' ''http://x.test'']))]\<rparr>)
        platform0) = Exit 0"
proof -
  let ?m = "message0 ''hello'' [entity0 ''url'' ''http://x.test'']"
  let ?us = "[update0 9 (Some (message0 ''old'' [entity0 ''url'' ''http://old.test''])),
              update0 4 (Some ?m)]"
  have 1: "GetUpdates transport0 (decoder0 \<lparr>Ok = True, Result = ?us\<rparr>)
             (Getenv env0 ''TELEGRAM_BOT_TOKEN'') = Inr ?us"
    by (simp add: GetUpdates0)
  have 2: "?us \<noteq> []" by simp
  have 3: "Message (last ?us) = Some ?m" by (simp add: update0_def)
  have 4: "ExtractURL (Some ?m) = Inr ''http://x.test''"
    by (simp add: ExtractURL_def message0_def entity0_def)
  have 5: "''http://x.test'' \<noteq> ''''" by simp
  have 6: "ShowNotification platform0 ''New Message'' ''You received a new message: hello''
             ''http://x.test'' =
     (None,
      [Acquire OLE, Acquire Manager, Acquire ManagerDispatch, Acquire Notifier, Acquire Content,
       PutInnerXml (toastXML ''New Message'' ''You received a new message: hello'' ''http://x.test''),
       ShowToast (toastXML ''New Message'' ''You received a new message: hello'' ''http://x.test''),
       Release Content, Release Notifier, Release ManagerDispatch, Release Manager, Release OLE])"
    by (simp add: ShowNotification_def ShowNotification_body_def return_from_def emit_def
        defer_call_def Let_def platform0_def)
  have 7: "Text ?m = ''hello''" by (simp add: message0_def)
  show ?thesis
    using main_notifies_last [OF 1 2 3 4 5, of platform0] by (simp add: 6 7)
qed

text \<open>
  C2. For a non-nil message, \<open>ExtractURL\<close> returns the empty string when the entities
  are absent, when they are empty and when no entity has the kind "url"; otherwise it
  returns the URL field of the first entity of kind "url" in sequence order, whatever
  follows it.
\<close>

theorem ExtractURL_first_url:
  "(Entities m = None \<longrightarrow> ExtractURL (Some m) = Inr '''') \<and>
   (Entities m = Some [] \<longrightarrow> ExtractURL (Some m) = Inr '''') \<and>
   (\<forall>es. Entities m = Some es \<and> (\<forall>x\<in>set es. Type x \<noteq> ''url'')
      \<longrightarrow> ExtractURL (Some m) = Inr '''') \<and>
   (\<forall>pre e post. Entities m = Some (pre @ e # post) \<and> (\<forall>x\<in>set pre. Type x \<noteq> ''url'')
        \<and> Type e = ''url''
      \<longrightarrow> ExtractURL (Some m) = Inr (URL e))"
  by (simp add: ExtractURL_def range_Entities_none range_Entities_first)

theorem ExtractURL_first_url_witness:
  "ExtractURL (Some (message0 ''t''
      [entity0 ''bold'' '''', entity0 ''url'' ''https://a.example'',
       entity0 ''url'' ''https://b.example''])) = Inr ''https://a.example'' \<and>
   ExtractURL (Some (message0 ''t'' [])) = Inr '''' \<and>
   ExtractURL (Some \<lparr>MessageID = 1, Text = ''t'', Entities = None\<rparr>) = Inr '''' \<and>
   ExtractURL (Some (message0 ''t'' [entity0 ''bold'' ''https://c.example''])) = Inr ''''"
proof -
  let ?m = "message0 ''t'' [entity0 ''bold'' '''', entity0 ''url'' ''https://a.example'',
                            entity0 ''url'' ''https://b.example'']"
  have a: "Entities ?m = Some ([entity0 ''bold'' ''''] @ entity0 ''url'' ''https://a.example''
                                 # [entity0 ''url'' ''https://b.example''])"
    by (simp add: message0_def)
  have b: "\<forall>x\<in>set [entity0 ''bold'' '''']. Type x \<noteq> ''url''"
    by (simp add: entity0_def)
  have c: "Type (entity0 ''url'' ''https://a.example'') = ''url''"
    by (simp add: entity0_def)
  have "ExtractURL (Some ?m) = Inr (URL (entity0 ''url'' ''https://a.example''))"
    using ExtractURL_first_url [of ?m] a b c by blast
  moreover have "ExtractURL (Some (message0 ''t'' [])) = Inr ''''"
    using ExtractURL_first_url [of "message0 ''t'' []"] by (simp add: message0_def)
  moreover have "ExtractURL (Some \<lparr>MessageID = 1, Text = ''t'', Entities = None\<rparr>) = Inr ''''"
    using ExtractURL_first_url [of "\<lparr>MessageID = 1, Text = ''t'', Entities = None\<rparr>"] by simp
  moreover have "ExtractURL (Some (message0 ''t'' [entity0 ''bold'' ''https://c.example''])) = Inr ''''"
  proof -
    have "Entities (message0 ''t'' [entity0 ''bold'' ''https://c.example'']) =
            Some [entity0 ''bold'' ''https://c.example''] \<and>
          (\<forall>x\<in>set [entity0 ''bold'' ''https://c.example'']. Type x \<noteq> ''url'')"
      by (simp add: message0_def entity0_def)
    then show ?thesis
      using ExtractURL_first_url [of "message0 ''t'' [entity0 ''bold'' ''https://c.example'']"]
      by blast
  qed
  ultimately show ?thesis by (simp add: entity0_def)
qed

text \<open>
  C3. When the transport delivers a body and the decoder turns it into an envelope whose
  \<open>Ok\<close> flag is false, \<open>GetUpdates\<close> fails with the error "failed to get updates" (the
  APIError), whatever the envelope's result list holds; it returns no update list.
\<close>

theorem GetUpdates_not_ok:
  assumes "http_Get (getUpdatesURL token) = Inr body"
    and "Decode body = Inr e"
    and "\<not> Ok e"
  shows "GetUpdates http_Get Decode token = Inl APIError \<and>
         (\<forall>us. GetUpdates http_Get Decode token \<noteq> Inr us)"
  using assms by (simp add: GetUpdates_def APIError_def Errorf_def)

theorem GetUpdates_not_ok_witness:
  "GetUpdates transport0
     (decoder0 \<lparr>Ok = False, Result = [update0 4 None]\<rparr>) ''t0k'' = Inl APIError \<and>
   GetUpdates transport0
     (decoder0 \<lparr>Ok = False, Result = [update0 4 None]\<rparr>) ''t0k'' \<noteq> Inr [update0 4 None] \<and>
   GetUpdates transport0
     (decoder0 \<lparr>Ok = False, Result = [update0 4 None]\<rparr>) ''t0k'' \<noteq> Inr []"
proof -
  let ?e = "\<lparr>Ok = False, Result = [update0 4 None]\<rparr>"
  have 1: "transport0 (getUpdatesURL ''t0k'') = Inr ''body0''"
    by (simp add: getUpdatesURL_eq transport0_def)
  have 2: "decoder0 ?e ''body0'' = Inr ?e" by (simp add: decoder0_def)
  have 3: "\<not> Ok ?e" by simp
  show ?thesis
    using GetUpdates_not_ok [where http_Get = transport0 and token = "''t0k''"
        and body = "''body0''" and Decode = "decoder0 ?e" and e = ?e] 1 2 3
    by simp
qed




text \<open>
  C6. When the transport delivers a body and the decoder turns it into an envelope whose
  \<open>Ok\<close> flag is true, \<open>GetUpdates\<close> returns the envelope's result list itself: the same
  elements in the same order, possibly none.
\<close>

theorem GetUpdates_ok:
  assumes "http_Get (getUpdatesURL token) = Inr body"
    and "Decode body = Inr e"
    and "Ok e"
  shows "GetUpdates http_Get Decode token = Inr (Result e)"
  using assms by (simp add: GetUpdates_def)

theorem GetUpdates_ok_witness:
  "GetUpdates transport0
     (decoder0 \<lparr>Ok = True, Result = [update0 9 None, update0 4 None]\<rparr>) ''t0k'' =
     Inr [update0 9 None, update0 4 None] \<and>
   GetUpdates transport0 (decoder0 \<lparr>Ok = True, Result = []\<rparr>) ''t0k'' = Inr []"
proof -
  have 1: "transport0 (getUpdatesURL ''t0k'') = Inr ''body0''"
    by (simp add: getUpdatesURL_eq transport0_def)
  have 2: "decoder0 e ''body0'' = Inr e" for e by (simp add: decoder0_def)
  have "GetUpdates transport0
     (decoder0 \<lparr>Ok = True, Result = [update0 9 None, update0 4 None]\<rparr>) ''t0k'' =
     Inr [update0 9 None, update0 4 None]"
    using GetUpdates_ok [where http_Get = transport0 and token = "''t0k''" and body = "''body0''"
        and Decode = "decoder0 \<lparr>Ok = True, Result = [update0 9 None, update0 4 None]\<rparr>"
        and e = "\<lparr>Ok = True, Result = [update0 9 None, update0 4 None]\<rparr>"] 1 2
    by simp
  moreover have "GetUpdates transport0 (decoder0 \<lparr>Ok = True, Result = []\<rparr>) ''t0k'' = Inr []"
    using GetUpdates_ok [where http_Get = transport0 and token = "''t0k''" and body = "''body0''"
        and Decode = "decoder0 \<lparr>Ok = True, Result = []\<rparr>"
        and e = "\<lparr>Ok = True, Result = []\<rparr>"] 1 2
    by simp
  ultimately show ?thesis by simp
qed

text \<open>
  C4. When the fetched update list is empty, or its last update has no message, or the
  last message yields the empty URL, \<open>main\<close> ends with exit status 0, calls
  \<open>ShowNotification\<close> not at all and causes no platform event.
\<close>

theorem main_absence_exit0:
  assumes "GetUpdates http_Get Decode (Getenv env ''TELEGRAM_BOT_TOKEN'') = Inr updates"
    and "updates = [] \<or> Message (last updates) = None \<or>
         (\<exists>m. Message (last updates) = Some m \<and> ExtractURL (Some m) = Inr '''')"
  shows "status (main env http_Get Decode p) = Exit 0 \<and>
         notifications (main env http_Get Decode p) = [] \<and>
         events (main env http_Get Decode p) = []"
proof (cases "updates = []")
  case True
  with assms(1) show ?thesis by (simp add: main_no_updates finish_def)
next
  case False
  with assms(2) consider "Message (last updates) = None"
    | m where "Message (last updates) = Some m" and "ExtractURL (Some m) = Inr ''''"
    by auto
  then show ?thesis
  proof cases
    case 1
    with assms(1) False show ?thesis by (simp add: main_no_message finish_def)
  next
    case 2
    with assms(1) False show ?thesis by (simp add: main_no_url finish_def)
  qed
qed

theorem main_absence_exit0_witness:
  "(status (main env0 transport0 (decoder0 \<lparr>Ok = True, Result = []\<rparr>) platform0) = Exit 0 \<and>
    notifications (main env0 transport0 (decoder0 \<lparr>Ok = True, Result = []\<rparr>) platform0) = [] \<and>
    events (main env0 transport0 (decoder0 \<lparr>Ok = True, Result = []\<rparr>) platform0) = []) \<and>
   (status (main env0 transport0
      (decoder0 \<lparr>Ok = True, Result = [update0 3 (Some (message0 ''a'' [entity0 ''url'' ''http://a.test''])),
                                        update0 4 None]\<rparr>) platform0) = Exit 0 \<and>
    notifications (main env0 transport0
      (decoder0 \<lparr>Ok = True, Result = [update0 3 (Some (message0 ''a'' [entity0 ''url'' ''http://a.test''])),
                                        update0 4 None]\<rparr>) platform0) = [] \<and>
    events (main env0 transport0
      (decoder0 \<lparr>Ok = True, Result = [update0 3 (Some (message0 ''a'' [entity0 ''url'' ''http://a.test''])),
                                        update0 4 None]\<rparr>) platform0) = []) \<and>
   (status (main env0 transport0
      (decoder0 \<lparr>Ok = True, Result = [update0 4 (Some (message0 ''hello'' [entity0 ''bold'' '''']))]\<rparr>)
      platform0) = Exit 0 \<and>
    notifications (main env0 transport0
      (decoder0 \<lparr>Ok = True, Result = [update0 4 (Some (message0 ''hello'' [entity0 ''bold'' '''']))]\<rparr>)
      platform0) = [] \<and>
    events (main env0 transport0
      (decoder0 \<lparr>Ok = True, Result = [update0 4 (Some (message0 ''hello'' [entity0 ''bold'' '''']))]\<rparr>)
      platform0) = [])"
proof -
  let ?u2 = "[update0 3 (Some (message0 ''a'' [entity0 ''url'' ''http://a.test''])), update0 4 None]"
  let ?m3 = "message0 ''hello'' [entity0 ''bold'' '''']"
  let ?u3 = "[update0 4 (Some ?m3)]"
  have g: "GetUpdates transport0 (decoder0 \<lparr>Ok = True, Result = us\<rparr>)
             (Getenv env0 ''TELEGRAM_BOT_TOKEN'') = Inr us" for us
    by (simp add: GetUpdates0)
  have h1: "[] = ([] :: Update list) \<or> Message (last []) = None \<or>
         (\<exists>m. Message (last []) = Some m \<and> ExtractURL (Some m) = Inr '''')"
    by simp
  have h2: "?u2 = [] \<or> Message (last ?u2) = None \<or>
         (\<exists>m. Message (last ?u2) = Some m \<and> ExtractURL (Some m) = Inr '''')"
    by (simp add: update0_def)
  have h3: "?u3 = [] \<or> Message (last ?u3) = None \<or>
         (\<exists>m. Message (last ?u3) = Some m \<and> ExtractURL (Some m) = Inr '''')"
    by (simp add: update0_def ExtractURL_def message0_def entity0_def)
  show ?thesis
    using main_absence_exit0 [OF g h1, of platform0] main_absence_exit0 [OF g h2, of platform0]
      main_absence_exit0 [OF g h3, of platform0]
    by blast
qed

text \<open>
  C7. On every path through \<open>ShowNotification\<close>, that is for every outcome of the seven
  platform calls, the events of the call acquire no resource twice, release only what is
  held and leave nothing held at the return; so each of the five resources is released
  as often as it was acquired, which is at most once.
\<close>

theorem ShowNotification_releases:
  "held_after (snd (ShowNotification p title message url)) [] = Some [] \<and>
   count_list (snd (ShowNotification p title message url)) (Release r) =
     count_list (snd (ShowNotification p title message url)) (Acquire r) \<and>
   count_list (snd (ShowNotification p title message url)) (Acquire r) \<le> 1"
  by (simp add: ShowNotification_defs split: option.splits)

text \<open>
  Two of the paths: the notifier cannot be obtained, so three resources were acquired and
  are released in reverse order; and the success path.
\<close>

theorem ShowNotification_releases_witness:
  "snd (ShowNotification (platform0\<lparr>GetProperty := Some ''E_FAIL''\<rparr>) ''t'' ''m'' ''u'') =
     [Acquire OLE, Acquire Manager, Acquire ManagerDispatch,
      Release ManagerDispatch, Release Manager, Release OLE] \<and>
   held_after (snd (ShowNotification (platform0\<lparr>GetProperty := Some ''E_FAIL''\<rparr>)
      ''t'' ''m'' ''u'')) [] = Some [] \<and>
   count_list (snd (ShowNotification (platform0\<lparr>GetProperty := Some ''E_FAIL''\<rparr>)
      ''t'' ''m'' ''u'')) (Release Notifier) = 0 \<and>
   count_list (snd (ShowNotification platform0 ''t'' ''m'' ''u'')) (Release Notifier) = 1 \<and>
   count_list (snd (ShowNotification platform0 ''t'' ''m'' ''u'')) (Release Content) = 1"
proof -
  let ?p = "platform0\<lparr>GetProperty := Some ''E_FAIL''\<rparr>"
  have tr: "snd (ShowNotification ?p ''t'' ''m'' ''u'') =
     [Acquire OLE, Acquire Manager, Acquire ManagerDispatch,
      Release ManagerDispatch, Release Manager, Release OLE]"
    by (simp add: ShowNotification_defs platform0_def)
  have a0: "count_list (snd (ShowNotification ?p ''t'' ''m'' ''u'')) (Acquire Notifier) = 0"
    by (simp add: tr)
  have a1: "count_list (snd (ShowNotification platform0 ''t'' ''m'' ''u'')) (Acquire Notifier) = 1"
    by (simp add: ShowNotification_defs platform0_def)
  have a2: "count_list (snd (ShowNotification platform0 ''t'' ''m'' ''u'')) (Acquire Content) = 1"
    by (simp add: ShowNotification_defs platform0_def)
  show ?thesis
    using ShowNotification_releases [of ?p "''t''" "''m''" "''u''" Notifier]
      ShowNotification_releases [of platform0 "''t''" "''m''" "''u''" Notifier]
      ShowNotification_releases [of platform0 "''t''" "''m''" "''u''" Content]
      tr a0 a1 a2
    by simp
qed

text \<open>
  C8. \<open>ExtractURL\<close> applied to a nil message panics with a nil pointer dereference; and
  no run of \<open>main\<close> ends in a panic, whatever the environment, the transport, the decoder
  and the platform do, because \<open>main\<close> calls \<open>ExtractURL\<close> only on a message it has found
  to be non-nil.
\<close>

theorem main_never_panics:
  "ExtractURL None = Inl NilPointerDereference \<and>
   (\<forall>pn. status (main env http_Get Decode p) \<noteq> Panicked pn)"
proof
  show "ExtractURL None = Inl NilPointerDereference"
    by (simp add: ExtractURL_def)
  show "\<forall>pn. status (main env http_Get Decode p) \<noteq> Panicked pn"
  proof (cases "GetUpdates http_Get Decode (Getenv env ''TELEGRAM_BOT_TOKEN'')")
    case (Inl err)
    then show ?thesis by (simp add: main_def finish_def)
  next
    case (Inr updates)
    show ?thesis
    proof (cases "updates = []")
      case True
      with Inr show ?thesis by (simp add: main_def finish_def)
    next
      case False
      with Inr show ?thesis
        by (simp add: main_def Let_def index_last finish_def ExtractURL_def deref_def
            del: Sprintf.simps split: option.splits)
    qed
  qed
qed

theorem main_never_panics_witness:
  "ExtractURL None = Inl NilPointerDereference \<and>
   status (main env0 transport0 (decoder0 \<lparr>Ok = True, Result = [update0 4 None]\<rparr>) platform0)
     \<noteq> Panicked NilPointerDereference \<and>
   status (main env0 transport0 (decoder0 \<lparr>Ok = True, Result = [update0 4 None]\<rparr>) platform0)
     = Exit 0"
proof -
  have "status (main env0 transport0 (decoder0 \<lparr>Ok = True, Result = [update0 4 None]\<rparr>) platform0)
     = Exit 0"
    by (simp add: main_no_message GetUpdates0 update0_def finish_def)
  then show ?thesis
    using main_never_panics [of env0 transport0 "decoder0 \<lparr>Ok = True, Result = [update0 4 None]\<rparr>"
        platform0]
    by simp
qed



text \<open>
  C10. When the first entity of kind "url" of a message has an empty URL field,
  \<open>ExtractURL\<close> returns the empty string whatever entities follow it; and when that
  message is the one of the last update, \<open>main\<close> ends with exit status 0 and logs
  "No URL found in the last message." without calling \<open>ShowNotification\<close>.
\<close>

theorem ExtractURL_empty_first_url:
  assumes "Entities m = Some (pre @ e # post)"
    and "\<forall>x\<in>set pre. Type x \<noteq> ''url''"
    and "Type e = ''url''"
    and "URL e = ''''"
    and "GetUpdates http_Get Decode (Getenv env ''TELEGRAM_BOT_TOKEN'') = Inr updates"
    and "updates \<noteq> []"
    and "Message (last updates) = Some m"
  shows "ExtractURL (Some m) = Inr '''' \<and>
         main env http_Get Decode p = finish (Exit 0) [''No URL found in the last message.''] \<and>
         status (main env http_Get Decode p) = Exit 0 \<and>
         notifications (main env http_Get Decode p) = []"
proof -
  have x: "ExtractURL (Some m) = Inr ''''"
    using assms(1-4) by (simp add: ExtractURL_def range_Entities_first)
  then have "main env http_Get Decode p = finish (Exit 0) [''No URL found in the last message.'']"
    using assms(5-7) by (simp add: main_no_url)
  with x show ?thesis by (simp add: finish_def)
qed

theorem ExtractURL_empty_first_url_witness:
  "ExtractURL (Some (message0 ''see''
      [entity0 ''bold'' '''', entity0 ''url'' '''', entity0 ''url'' ''https://b.example''])) = Inr '''' \<and>
   status (main env0 transport0
     (decoder0 \<lparr>Ok = True, Result = [update0 4 (Some (message0 ''see''
        [entity0 ''bold'' '''', entity0 ''url'' '''', entity0 ''url'' ''https://b.example'']))]\<rparr>)
     platform0) = Exit 0 \<and>
   notifications (main env0 transport0
     (decoder0 \<lparr>Ok = True, Result = [update0 4 (Some (message0 ''see''
        [entity0 ''bold'' '''', entity0 ''url'' '''', entity0 ''url'' ''https://b.example'']))]\<rparr>)
     platform0) = []"
proof -
  let ?m = "message0 ''see''
      [entity0 ''bold'' '''', entity0 ''url'' '''', entity0 ''url'' ''https://b.example'']"
  let ?us = "[update0 4 (Some ?m)]"
  have 1: "Entities ?m = Some ([entity0 ''bold'' ''''] @ entity0 ''url'' ''''
                                 # [entity0 ''url'' ''https://b.example''])"
    by (simp add: message0_def)
  have 2: "\<forall>x\<in>set [entity0 ''bold'' '''']. Type x \<noteq> ''url''"
    by (simp add: entity0_def)
  have 3: "Type (entity0 ''url'' '''') = ''url''" by (simp add: entity0_def)
  have 4: "URL (entity0 ''url'' '''') = ''''" by (simp add: entity0_def)
  have 5: "GetUpdates transport0 (decoder0 \<lparr>Ok = True, Result = ?us\<rparr>)
             (Getenv env0 ''TELEGRAM_BOT_TOKEN'') = Inr ?us"
    by (simp add: GetUpdates0)
  have 6: "?us \<noteq> []" by simp
  have 7: "Message (last ?us) = Some ?m" by (simp add: update0_def)
  show ?thesis
    using ExtractURL_empty_first_url [OF 1 2 3 4 5 6 7, of platform0] by blast
qed

end
